theory Spec2Isabelle
  imports Main
begin

section \<open>The package descriptor of \<^verbatim>\<open>setup.py\<close>\<close>

text \<open>
  The repository consists of one file, \<^verbatim>\<open>setup.py\<close>, which imports \<^verbatim>\<open>setup\<close> from
  setuptools and calls it once with nine keyword arguments. The keyword arguments are the
  package descriptor: six strings, two lists of strings and one boolean.
\<close>

record descriptor =
  name :: string
  version :: string
  description :: string
  url :: string
  author :: string
  license :: string
  packages :: "string list"
  include_package_data :: bool
  install_requires :: "string list"

text \<open>The keyword arguments of the call, in the order of the source (lines 4 to 15).\<close>

definition setup_call :: descriptor where
  "setup_call = \<lparr>
     name = ''immutablex-starknet'',
     version = ''0.1.0'',
     description = ''Immutable X StarkNet Contracts'',
     url = '''',
     author = ''Immutable'',
     license = ''Apache-2.0'',
     packages = [''immutablex''],
     include_package_data = True,
     install_requires = [
       ''openzeppelin-cairo-contracts'',
       ''cairolib''
     ]
   \<rparr>"

section \<open>Requirement strings\<close>

text \<open>
  An entry of \<^verbatim>\<open>install_requires\<close> is a requirement string. Its grammar starts with a
  distribution name: letters, digits, and \<^verbatim>\<open>-\<close>, \<^verbatim>\<open>_\<close>, \<^verbatim>\<open>.\<close> between a first and a last
  character that are letters or digits. Anything that constrains the version comes after the
  name and needs one of the comparison characters \<^verbatim>\<open><\<close>, \<^verbatim>\<open>>\<close>, \<^verbatim>\<open>=\<close>, \<^verbatim>\<open>!\<close>, \<^verbatim>\<open>~\<close>, or
  \<^verbatim>\<open>@\<close> for a direct reference.
\<close>

definition is_alnum :: "char \<Rightarrow> bool" where
  "is_alnum c \<longleftrightarrow>
     c \<in> set ''abcdefghijklmnopqrstuvwxyzABCDEFGHIJKLMNOPQRSTUVWXYZ0123456789''"

definition is_name_char :: "char \<Rightarrow> bool" where
  "is_name_char c \<longleftrightarrow> is_alnum c \<or> c \<in> set ''-_.''"

definition bare_identifier :: "string \<Rightarrow> bool" where
  "bare_identifier s \<longleftrightarrow>
     s \<noteq> [] \<and> is_alnum (hd s) \<and> is_alnum (last s) \<and> list_all is_name_char s"

definition is_constraint_char :: "char \<Rightarrow> bool" where
  "is_constraint_char c \<longleftrightarrow> c \<in> set ''<>=!~@''"

definition carries_constraint :: "string \<Rightarrow> bool" where
  "carries_constraint s \<longleftrightarrow> list_ex is_constraint_char s"

section \<open>The module\<close>

text \<open>
  The statements a Python module can be made of, as far as their kind matters here: imports,
  expression statements that call a function with keyword arguments, assignments, function
  and class definitions, and the compound statements that direct control flow, each with
  the statement lists it contains.
\<close>

datatype stmt =
    ImportFrom string "string list"
  | Expr_Call string descriptor
  | Assign string
  | FunctionDef string "stmt list"
  | ClassDef string "stmt list"
  | If "stmt list" "stmt list"
  | For "stmt list" "stmt list"
  | While "stmt list" "stmt list"
  | Try "stmt list" "stmt list"
  | With "stmt list"

text \<open>Line 1 and lines 3 to 16 of \<^verbatim>\<open>setup.py\<close>.\<close>

definition module_body :: "stmt list" where
  "module_body = [ImportFrom ''setuptools'' [''setup''], Expr_Call ''setup'' setup_call]"

text \<open>A statement together with every statement nested in it.\<close>

fun statements :: "stmt \<Rightarrow> stmt list" where
  "statements (ImportFrom m ns) = [ImportFrom m ns]"
| "statements (Expr_Call f d) = [Expr_Call f d]"
| "statements (Assign x) = [Assign x]"
| "statements (FunctionDef f b) = FunctionDef f b # concat (map statements b)"
| "statements (ClassDef c b) = ClassDef c b # concat (map statements b)"
| "statements (If b e) = If b e # concat (map statements b) @ concat (map statements e)"
| "statements (For b e) = For b e # concat (map statements b) @ concat (map statements e)"
| "statements (While b e) = While b e # concat (map statements b) @ concat (map statements e)"
| "statements (Try b h) = Try b h # concat (map statements b) @ concat (map statements h)"
| "statements (With b) = With b # concat (map statements b)"

definition all_statements :: "stmt list \<Rightarrow> stmt list" where
  "all_statements body = concat (map statements body)"

fun called :: "stmt \<Rightarrow> string list" where
  "called (Expr_Call f d) = [f]"
| "called s = []"

fun is_definition :: "stmt \<Rightarrow> bool" where
  "is_definition (Assign x) = True"
| "is_definition (FunctionDef f b) = True"
| "is_definition (ClassDef c b) = True"
| "is_definition s = False"

fun is_control_flow :: "stmt \<Rightarrow> bool" where
  "is_control_flow (If b e) = True"
| "is_control_flow (For b e) = True"
| "is_control_flow (While b e) = True"
| "is_control_flow (Try b h) = True"
| "is_control_flow (With b) = True"
| "is_control_flow s = False"

section \<open>The source text\<close>

text \<open>
  The file as a sequence of characters. Every line but the last ends with a line feed; the
  last line, the closing parenthesis, has none.
\<close>

definition setup_py :: string where
  "setup_py =
     ''from setuptools import setup'' @ [CHR 0x0A] @
     [CHR 0x0A] @
     ''setup('' @ [CHR 0x0A] @
     ''    name='immutablex-starknet','' @ [CHR 0x0A] @
     ''    version='0.1.0','' @ [CHR 0x0A] @
     ''    description='Immutable X StarkNet Contracts','' @ [CHR 0x0A] @
     ''    url='' @ [CHR 0x27, CHR 0x27] @ '','' @ [CHR 0x0A] @
     ''    author='Immutable','' @ [CHR 0x0A] @
     ''    license='Apache-2.0','' @ [CHR 0x0A] @
     ''    packages=['immutablex'],'' @ [CHR 0x0A] @
     ''    include_package_data=True,'' @ [CHR 0x0A] @
     ''    install_requires=['' @ [CHR 0x0A] @
     ''        'openzeppelin-cairo-contracts','' @ [CHR 0x0A] @
     ''        'cairolib'' @ [CHR 0x27] @ [CHR 0x0A] @
     ''    ],'' @ [CHR 0x0A] @
     '')''"

definition repository_files :: "(string \<times> string) list" where
  "repository_files = [(''setup.py'', setup_py)]"

text \<open>
  The lines of a text, as \<^verbatim>\<open>str.splitlines\<close> gives them for a text whose only line
  boundary is the line feed: a line ends at each line feed, and what follows the last line
  feed is a line when it is not empty.
\<close>

fun splitlines_from :: "string \<Rightarrow> string \<Rightarrow> string list" where
  "splitlines_from cur [] = (if cur = [] then [] else [cur])"
| "splitlines_from cur (c # cs) =
     (if c = CHR 0x0A then cur # splitlines_from [] cs else splitlines_from (cur @ [c]) cs)"

definition splitlines :: "string \<Rightarrow> string list" where
  "splitlines s = splitlines_from [] s"

section \<open>Properties of the descriptor\<close>

text \<open>
  C1: the descriptor declares exactly two dependencies in \<^verbatim>\<open>install_requires\<close>, named
  \<^verbatim>\<open>openzeppelin-cairo-contracts\<close> and \<^verbatim>\<open>cairolib\<close>.
\<close>

theorem install_requires_two_dependencies:
  "length (install_requires setup_call) = 2 \<and>
   install_requires setup_call = [''openzeppelin-cairo-contracts'', ''cairolib'']"
  by (simp add: setup_call_def)

text \<open>
  C3: the descriptor declares exactly one package namespace in \<^verbatim>\<open>packages\<close>.
\<close>

theorem packages_one_namespace:
  "length (packages setup_call) = 1"
  by (simp add: setup_call_def)

text \<open>
  C4: the license string of the descriptor is \<^verbatim>\<open>Apache-2.0\<close>.
\<close>

theorem license_is_apache_2_0:
  "license setup_call = ''Apache-2.0''"
  by (simp add: setup_call_def)

text \<open>
  C5: the version string of the descriptor is \<^verbatim>\<open>0.1.0\<close>.
\<close>

theorem version_is_0_1_0:
  "version setup_call = ''0.1.0''"
  by (simp add: setup_call_def)

text \<open>
  C2, as stated: each of the six identity fields (name, version, description, url, author,
  license) is a non-empty string. The call passes the empty string as \<^verbatim>\<open>url\<close>, so
  the statement fails on the descriptor.
\<close>

theorem identity_fields_nonempty_counterexample:
  "\<not> (name setup_call \<noteq> [] \<and> version setup_call \<noteq> [] \<and> description setup_call \<noteq> [] \<and>
      url setup_call \<noteq> [] \<and> author setup_call \<noteq> [] \<and> license setup_call \<noteq> [])"
  by (simp add: setup_call_def)

text \<open>
  C2, amended: the identity fields name, version, description, author and license are
  non-empty strings, and url is the empty string.
\<close>

theorem identity_fields_nonempty_except_url:
  "name setup_call \<noteq> [] \<and> version setup_call \<noteq> [] \<and> description setup_call \<noteq> [] \<and>
   author setup_call \<noteq> [] \<and> license setup_call \<noteq> [] \<and> url setup_call = []"
  by (simp add: setup_call_def)

text \<open>
  A character of a distribution name is never a constraint character, so a string that is
  only a name constrains no version.
\<close>

lemma name_char_not_constraint_char: "is_name_char c \<Longrightarrow> \<not> is_constraint_char c"
  by (auto simp add: is_name_char_def is_alnum_def is_constraint_char_def)

lemma bare_identifier_no_constraint: "bare_identifier s \<Longrightarrow> \<not> carries_constraint s"
  by (auto simp add: bare_identifier_def carries_constraint_def list_all_iff list_ex_iff
      dest: name_char_not_constraint_char)

text \<open>
  C6: every entry of the dependency list is a bare distribution name, and no entry carries
  a version specifier, bound or pin.
\<close>

theorem dependencies_are_bare_identifiers:
  "list_all bare_identifier (install_requires setup_call) \<and>
   \<not> list_ex carries_constraint (install_requires setup_call)"
  by (simp add: setup_call_def bare_identifier_def is_name_char_def is_alnum_def
      carries_constraint_def is_constraint_char_def)

text \<open>The text has the 352 characters of the file.\<close>

lemma setup_py_length: "length setup_py = 352"
  by (simp add: setup_py_def)

text \<open>
  C7: the source of the repository is the one file \<^verbatim>\<open>setup.py\<close>; it has exactly 16
  lines; the only function its statements call is \<^verbatim>\<open>setup\<close>, once; and none of its
  statements, at any depth, is an assignment, a function or class definition, or a
  control-flow statement.
\<close>

theorem source_is_one_manifest:
  "map fst repository_files = [''setup.py''] \<and>
   length (splitlines (snd (hd repository_files))) = 16 \<and>
   concat (map called (all_statements module_body)) = [''setup''] \<and>
   filter is_definition (all_statements module_body) = [] \<and>
   filter is_control_flow (all_statements module_body) = []"
  by (simp add: repository_files_def splitlines_def setup_py_def all_statements_def
      module_body_def)

text \<open>
  C8: neither the package list nor the dependency list has a duplicate entry.
\<close>

theorem packages_and_dependencies_distinct:
  "distinct (packages setup_call) \<and> distinct (install_requires setup_call)"
  by (simp add: setup_call_def)

text \<open>
  C10: name is \<^verbatim>\<open>immutablex-starknet\<close>, description is
  \<^verbatim>\<open>Immutable X StarkNet Contracts\<close>, author is \<^verbatim>\<open>Immutable\<close>, and url is the empty
  string.
\<close>

theorem remaining_identity_fields:
  "name setup_call = ''immutablex-starknet'' \<and>
   description setup_call = ''Immutable X StarkNet Contracts'' \<and>
   author setup_call = ''Immutable'' \<and>
   url setup_call = ''''"
  by (simp add: setup_call_def)

end
